theory Spec2Isabelle
  imports Complex_Main
begin

section \<open>JSON serialisation of a list of strings\<close>

text \<open>
  \<open>shouldRegenerate\<close> compares the \<open>previewProperties\<close> lists through
  \<open>JSON.stringify\<close>. For an array of strings the serialisation is an opening bracket,
  the quoted elements separated by commas, and a closing bracket. Quoting follows
  ECMAScript's \<open>QuoteJSONString\<close>: the two-character escapes for backspace, tab, line
  feed, form feed, carriage return, the double quote and the backslash; a \<open>u\<close> escape
  with four lowercase hexadecimal digits for every other character below 0x20; every
  other character as it is.
\<close>

definition hexDigit :: "nat \<Rightarrow> char" where
  "hexDigit n = ''0123456789abcdef'' ! n"

definition QuoteJSONChar :: "char \<Rightarrow> string" where
  "QuoteJSONChar c =
     (if c = CHR 0x08 then [CHR 0x5C, CHR ''b'']
      else if c = CHR 0x09 then [CHR 0x5C, CHR ''t'']
      else if c = CHR 0x0A then [CHR 0x5C, CHR ''n'']
      else if c = CHR 0x0C then [CHR 0x5C, CHR ''f'']
      else if c = CHR 0x0D then [CHR 0x5C, CHR ''r'']
      else if c = CHR 0x22 then [CHR 0x5C, CHR 0x22]
      else if c = CHR 0x5C then [CHR 0x5C, CHR 0x5C]
      else if (of_char c :: nat) < 32
        then [CHR 0x5C, CHR ''u'', CHR ''0'', CHR ''0'',
              hexDigit ((of_char c :: nat) div 16), hexDigit ((of_char c :: nat) mod 16)]
      else [c])"

definition QuoteJSONString :: "string \<Rightarrow> string" where
  "QuoteJSONString s = CHR 0x22 # concat (map QuoteJSONChar s) @ [CHR 0x22]"

fun joinComma :: "string list \<Rightarrow> string" where
  "joinComma [] = []"
| "joinComma [x] = x"
| "joinComma (x # y # ys) = x @ '','' @ joinComma (y # ys)"

definition JSON_stringify :: "string list \<Rightarrow> string" where
  "JSON_stringify xs = ''['' @ joinComma (map QuoteJSONString xs) @ '']''"

section \<open>Preview content provider: data\<close>

text \<open>
  The settings snapshot. Only the options read by the preview provider are named; every
  other option of the plugin lives in the extension slot of the record, so a snapshot
  may differ from another one in options the provider never looks at.
\<close>

record NotebookNavigatorSettings =
  showFilePreview :: bool
  skipHeadingsInPreview :: bool
  skipCodeBlocksInPreview :: bool
  stripHtmlInPreview :: bool
  previewProperties :: "string list"

text \<open>The stored record of a document (\<open>FileData\<close>): the fields the provider reads.\<close>

record FileData =
  mtime :: int
  preview :: "string option"

text \<open>A vault file (\<open>TFile\<close>), with \<open>stat.mtime\<close> and \<open>stat.size\<close> flattened.\<close>

record TFile =
  path :: string
  name :: string
  extension :: string
  stat_mtime :: int
  stat_size :: "int option"

type_synonym FrontMatterCache = "(string \<times> string) list"

record CachedMetadata =
  frontmatter :: "FrontMatterCache option"

text \<open>A thrown JavaScript value. What was thrown is never inspected by the code.\<close>

datatype thrown = Thrown

text \<open>
  The collaborators of the provider that live outside the provider's source: the
  metadata cache, the Excalidraw test, the file read and the preview extraction. The
  read and the extraction may throw.
\<close>

record 's PreviewEnv =
  getFileCache :: "TFile \<Rightarrow> CachedMetadata option"
  isExcalidrawFile :: "string \<Rightarrow> FrontMatterCache option \<Rightarrow> bool"
  readFileContent :: "TFile \<Rightarrow> thrown + string"
  extractPreviewText :: "string \<Rightarrow> 's \<Rightarrow> FrontMatterCache option \<Rightarrow> thrown + string"

text \<open>The update object returned by \<open>processFile\<close>; only these two fields are ever set.\<close>

record PreviewUpdate =
  upd_path :: string
  upd_preview :: string

record Job =
  job_file :: TFile
  job_path :: "string list"

section \<open>Preview content provider: operations\<close>

text \<open>\<open>metadata?.frontmatter\<close>\<close>

definition frontmatter_of :: "CachedMetadata option \<Rightarrow> FrontMatterCache option" where
  "frontmatter_of metadata = (case metadata of None \<Rightarrow> None | Some m \<Rightarrow> frontmatter m)"

definition needsProcessing ::
  "'a NotebookNavigatorSettings_scheme PreviewEnv \<Rightarrow> FileData option \<Rightarrow> TFile
     \<Rightarrow> 'a NotebookNavigatorSettings_scheme \<Rightarrow> bool" where
  "needsProcessing env fileData file settings =
     (if \<not> showFilePreview settings \<or> extension file \<noteq> ''md'' then False
      else
        let fileModified = (case fileData of None \<Rightarrow> False | Some fd \<Rightarrow> mtime fd \<noteq> stat_mtime file);
            metadata = getFileCache env file
        in if isExcalidrawFile env (name file) (frontmatter_of metadata)
           then (case fileData of None \<Rightarrow> True | Some fd \<Rightarrow> preview fd = None \<or> fileModified)
           else (case fileData of None \<Rightarrow> True | Some fd \<Rightarrow> preview fd = None \<or> fileModified))"

text \<open>The body of the \<open>try\<close> block of \<open>processFile\<close>: \<open>Inl\<close> is a thrown error.\<close>

definition processFile_try ::
  "'a NotebookNavigatorSettings_scheme PreviewEnv \<Rightarrow> Job \<Rightarrow> FileData option
     \<Rightarrow> 'a NotebookNavigatorSettings_scheme \<Rightarrow> thrown + PreviewUpdate option" where
  "processFile_try env job fileData settings =
     (let metadata = getFileCache env (job_file job)
      in if isExcalidrawFile env (name (job_file job)) (frontmatter_of metadata)
         then Inr (Some \<lparr>upd_path = path (job_file job), upd_preview = ''''\<rparr>)
         else
           (case readFileContent env (job_file job) of
              Inl e \<Rightarrow> Inl e
            | Inr content \<Rightarrow>
                (case extractPreviewText env content settings (frontmatter_of metadata) of
                   Inl e \<Rightarrow> Inl e
                 | Inr previewText \<Rightarrow>
                     if (case fileData of None \<Rightarrow> False | Some fd \<Rightarrow> preview fd = Some previewText)
                     then Inr None
                     else Inr (Some \<lparr>upd_path = path (job_file job), upd_preview = previewText\<rparr>))))"

definition processFile ::
  "'a NotebookNavigatorSettings_scheme PreviewEnv \<Rightarrow> Job \<Rightarrow> FileData option
     \<Rightarrow> 'a NotebookNavigatorSettings_scheme \<Rightarrow> PreviewUpdate option" where
  "processFile env job fileData settings =
     (if \<not> showFilePreview settings \<or> extension (job_file job) \<noteq> ''md'' then None
      else
        (case processFile_try env job fileData settings of
           Inr r \<Rightarrow> r
         | Inl e \<Rightarrow>
             if (case fileData of None \<Rightarrow> False | Some fd \<Rightarrow> preview fd \<noteq> None) then None
             else Some \<lparr>upd_path = path (job_file job), upd_preview = ''''\<rparr>))"

definition shouldRegenerate ::
  "'a NotebookNavigatorSettings_scheme \<Rightarrow> 'a NotebookNavigatorSettings_scheme \<Rightarrow> bool" where
  "shouldRegenerate oldSettings newSettings =
     (if \<not> showFilePreview newSettings \<and> showFilePreview oldSettings then True
      else if showFilePreview newSettings then
        (showFilePreview oldSettings \<noteq> showFilePreview newSettings \<or>
         skipHeadingsInPreview oldSettings \<noteq> skipHeadingsInPreview newSettings \<or>
         skipCodeBlocksInPreview oldSettings \<noteq> skipCodeBlocksInPreview newSettings \<or>
         stripHtmlInPreview oldSettings \<noteq> stripHtmlInPreview newSettings \<or>
         JSON_stringify (previewProperties oldSettings)
           \<noteq> JSON_stringify (previewProperties newSettings))
      else False)"

text \<open>
  The regeneration rule as the specification words it: the preview was enabled and is now
  disabled, or it is enabled now and one of the relevant options differs, the list of
  preview properties being compared element by element.
\<close>

definition shouldRegenerate_spec ::
  "'a NotebookNavigatorSettings_scheme \<Rightarrow> 'a NotebookNavigatorSettings_scheme \<Rightarrow> bool" where
  "shouldRegenerate_spec oldSettings newSettings =
     ((showFilePreview oldSettings \<and> \<not> showFilePreview newSettings) \<or>
      (showFilePreview newSettings \<and>
        (showFilePreview oldSettings \<noteq> showFilePreview newSettings \<or>
         skipHeadingsInPreview oldSettings \<noteq> skipHeadingsInPreview newSettings \<or>
         skipCodeBlocksInPreview oldSettings \<noteq> skipCodeBlocksInPreview newSettings \<or>
         stripHtmlInPreview oldSettings \<noteq> stripHtmlInPreview newSettings \<or>
         previewProperties oldSettings \<noteq> previewProperties newSettings)))"

section \<open>Sample inputs of the preview provider\<close>

definition sampleSettings :: NotebookNavigatorSettings where
  "sampleSettings =
     \<lparr>showFilePreview = True, skipHeadingsInPreview = False, skipCodeBlocksInPreview = True,
      stripHtmlInPreview = True, previewProperties = [''summary'']\<rparr>"

definition sampleFile :: TFile where
  "sampleFile =
     \<lparr>path = ''notes/a.md'', name = ''a.md'', extension = ''md'', stat_mtime = 7,
      stat_size = Some 120\<rparr>"

definition sampleJob :: Job where
  "sampleJob = \<lparr>job_file = sampleFile, job_path = [''notes'', ''a.md'']\<rparr>"

text \<open>An environment whose read succeeds, and one whose read throws.\<close>

definition readingEnv :: "NotebookNavigatorSettings PreviewEnv" where
  "readingEnv =
     \<lparr>getFileCache = (\<lambda>f. None), isExcalidrawFile = (\<lambda>n fm. False),
      readFileContent = (\<lambda>f. Inr ''hello world''),
      extractPreviewText = (\<lambda>content s fm. Inr (take 5 content))\<rparr>"

definition failingEnv :: "NotebookNavigatorSettings PreviewEnv" where
  "failingEnv =
     \<lparr>getFileCache = (\<lambda>f. None), isExcalidrawFile = (\<lambda>n fm. False),
      readFileContent = (\<lambda>f. Inl Thrown),
      extractPreviewText = (\<lambda>content s fm. Inr (take 5 content))\<rparr>"

section \<open>JavaScript numbers\<close>

text \<open>
  A JavaScript number is an IEEE 754 double: not-a-number, the two infinities, the
  negative zero, or a finite value, given here by the rational number it stands for
  (\<open>Fin 0\<close> is the positive zero).
\<close>

datatype number = NaN | PosInf | NegInf | NegZero | Fin rat

text \<open>Powers of two with an integer exponent.\<close>

definition pow2 :: "int \<Rightarrow> rat" where
  "pow2 e = (if 0 \<le> e then of_int (2 ^ nat e) else 1 / of_int (2 ^ nat (- e)))"

text \<open>The number of binary digits of a positive integer.\<close>

function bitLength :: "int \<Rightarrow> int" where
  "bitLength n = (if 0 < n then bitLength (n div 2) + 1 else 0)"
  by pat_completeness auto
termination
  by (relation "measure nat") auto

declare bitLength.simps [simp del]

text \<open>
  The binade of a positive rational \<open>a\<close>: the exponent \<open>e\<close> with
  \<open>pow2 e \<le> a < pow2 (e + 1)\<close>. The difference of the bit lengths of numerator and
  denominator is this exponent or its successor.
\<close>

definition binadeFrom :: "rat \<Rightarrow> int \<Rightarrow> int" where
  "binadeFrom a e0 = (if pow2 e0 \<le> a then e0 else e0 - 1)"

definition binade :: "rat \<Rightarrow> int" where
  "binade a = binadeFrom a (bitLength (fst (quotient_of a)) - bitLength (snd (quotient_of a)))"

text \<open>Rounding to the nearest integer, a tie going to the even one.\<close>

definition roundHalfEvenFrom :: "rat \<Rightarrow> int \<Rightarrow> int" where
  "roundHalfEvenFrom m f =
     (if m - of_int f < 1 / 2 then f
      else if 1 / 2 < m - of_int f then f + 1
      else if even f then f else f + 1)"

definition roundHalfEven :: "rat \<Rightarrow> int" where
  "roundHalfEven m = roundHalfEvenFrom m \<lfloor>m\<rfloor>"

text \<open>
  Rounding of an exact result to a double: the magnitude is rounded to the nearest
  multiple of the unit in the last place of its binade (53 significant bits; below the
  smallest normal binade, \<open>- 1022\<close>, the grid of the subnormal numbers), a magnitude
  that reaches \<open>pow2 1024\<close> becomes an infinity, and a magnitude that rounds to
  nothing becomes a zero with the sign of the exact result.
\<close>

definition roundOnGrid :: "rat \<Rightarrow> rat \<Rightarrow> rat" where
  "roundOnGrid a ulp = of_int (roundHalfEven (a / ulp)) * ulp"

definition signedResult :: "bool \<Rightarrow> rat \<Rightarrow> number" where
  "signedResult negative r =
     (if pow2 1024 \<le> r then (if negative then NegInf else PosInf)
      else if r = 0 then (if negative then NegZero else Fin 0)
      else Fin (if negative then - r else r))"

definition roundToDouble :: "rat \<Rightarrow> number" where
  "roundToDouble x =
     (if x = 0 then Fin 0
      else signedResult (x < 0) (roundOnGrid \<bar>x\<bar> (pow2 (max (binade \<bar>x\<bar>) (- 1022) - 52))))"

text \<open>The operators \<open>/\<close>, \<open>*\<close> and \<open><=\<close>, and \<open>Math.min\<close>, \<open>Math.max\<close>, \<open>Math.ceil\<close>.\<close>

fun isNegative :: "number \<Rightarrow> bool" where
  "isNegative NegInf = True"
| "isNegative NegZero = True"
| "isNegative (Fin q) = (q < 0)"
| "isNegative _ = False"

fun isZero :: "number \<Rightarrow> bool" where
  "isZero NegZero = True"
| "isZero (Fin q) = (q = 0)"
| "isZero _ = False"

fun isInfinite :: "number \<Rightarrow> bool" where
  "isInfinite PosInf = True"
| "isInfinite NegInf = True"
| "isInfinite _ = False"

fun finiteValue :: "number \<Rightarrow> rat" where
  "finiteValue (Fin q) = q"
| "finiteValue _ = 0"

definition js_div :: "number \<Rightarrow> number \<Rightarrow> number" where
  "js_div x y =
     (if x = NaN \<or> y = NaN then NaN
      else if isInfinite x \<and> isInfinite y then NaN
      else if isZero x \<and> isZero y then NaN
      else if isInfinite x \<or> isZero y
        then (if isNegative x \<noteq> isNegative y then NegInf else PosInf)
      else if isInfinite y \<or> isZero x
        then (if isNegative x \<noteq> isNegative y then NegZero else Fin 0)
      else roundToDouble (finiteValue x / finiteValue y))"

definition js_mul :: "number \<Rightarrow> number \<Rightarrow> number" where
  "js_mul x y =
     (if x = NaN \<or> y = NaN then NaN
      else if (isInfinite x \<and> isZero y) \<or> (isZero x \<and> isInfinite y) then NaN
      else if isInfinite x \<or> isInfinite y
        then (if isNegative x \<noteq> isNegative y then NegInf else PosInf)
      else if isZero x \<or> isZero y
        then (if isNegative x \<noteq> isNegative y then NegZero else Fin 0)
      else roundToDouble (finiteValue x * finiteValue y))"

definition js_le :: "number \<Rightarrow> number \<Rightarrow> bool" where
  "js_le x y =
     (if x = NaN \<or> y = NaN then False
      else if x = NegInf \<or> y = PosInf then True
      else if x = PosInf \<or> y = NegInf then False
      else finiteValue x \<le> finiteValue y)"

definition js_min :: "number \<Rightarrow> number \<Rightarrow> number" where
  "js_min x y =
     (if x = NaN \<or> y = NaN then NaN
      else if isZero x \<and> isZero y then (if x = NegZero \<or> y = NegZero then NegZero else Fin 0)
      else if js_le x y then x else y)"

definition js_max :: "number \<Rightarrow> number \<Rightarrow> number" where
  "js_max x y =
     (if x = NaN \<or> y = NaN then NaN
      else if isZero x \<and> isZero y then (if x = NegZero \<and> y = NegZero then NegZero else Fin 0)
      else if js_le x y then y else x)"

definition js_ceil :: "number \<Rightarrow> number" where
  "js_ceil x =
     (case x of
        Fin q \<Rightarrow> if \<lceil>q\<rceil> = 0 \<and> q < 0 then NegZero else Fin (of_int \<lceil>q\<rceil>)
      | _ \<Rightarrow> x)"

section \<open>PDF cover thumbnails: data\<close>

text \<open>Time before the shared worker is destroyed after the last render completes.\<close>

definition DEFAULT_WORKER_IDLE_TIMEOUT_MS :: nat where
  "DEFAULT_WORKER_IDLE_TIMEOUT_MS = 60000"

text \<open>Maximum concurrent PDF page renders.\<close>

definition MAX_PARALLEL_PDF_RENDERS :: nat where
  "MAX_PARALLEL_PDF_RENDERS = 2"

text \<open>Thumbnails of larger PDF files are skipped.\<close>

definition MAX_PDF_THUMBNAIL_BYTES :: int where
  "MAX_PDF_THUMBNAIL_BYTES = 25 * 1024 * 1024"

text \<open>
  An optional method of a foreign object, as the code probes it: missing (or not a
  function), returning, or throwing.
\<close>

datatype js_method = Absent | Returning | Throwing

text \<open>A pdf.js worker: an identity and its \<open>destroy\<close> method.\<close>

record PdfWorker =
  worker_id :: nat
  destroy :: js_method

text \<open>
  Every call that leaves the module (limiter, logger, pdf.js, vault, canvas) is written to
  a trace, in the order of the calls.
\<close>

datatype event =
    EvAcquire
  | EvRelease
  | EvLogOnce string
  | EvLoadPdfJs
  | EvCreateWorker
  | EvWorkerDestroy nat
  | EvGetResourcePath
  | EvGetDocumentUrl "nat option"
  | EvReadBinary
  | EvGetDocumentData "nat option"
  | EvGetPage
  | EvGetViewport
  | EvGetContext
  | EvRender
  | EvToBlob string
  | EvPageCleanup
  | EvDocDestroy

text \<open>
  The module state: the two module variables \<open>sharedWorker\<close> and \<open>workerIdleTimerId\<close>,
  the timers of the window that are scheduled and have neither fired nor been cleared
  (identifier and delay), the next timer identifier of the window, the active count of
  the render limiter, and the trace.
\<close>

record ModuleState =
  sharedWorker :: "PdfWorker option"
  workerIdleTimerId :: "nat option"
  pendingTimers :: "(nat \<times> nat) list"
  nextTimerId :: nat
  activeCount :: nat
  trace :: "event list"

record PdfCoverThumbnailOptions =
  opt_maxWidth :: number
  opt_maxHeight :: number
  mimeType :: string
  quality :: "number option"

record PdfViewport =
  width :: number
  height :: number

text \<open>The canvas, with the two numbers the code assigns to its dimensions.\<close>

record Canvas =
  canvas_width :: number
  canvas_height :: number

record Blob =
  blob_type :: string
  blob_size :: nat

text \<open>A pdf.js page that passed the \<open>isPdfPage\<close> guard.\<close>

record PdfPage =
  getViewport :: "number \<Rightarrow> thrown + PdfViewport"
  render :: "thrown + unit"
  cleanup :: js_method

datatype page_value = IsPdfPage PdfPage | NotPdfPage

record PdfDocument =
  getPage :: "thrown + page_value"
  doc_destroy :: js_method

text \<open>What \<open>PDFWorker.create\<close> or the \<open>PDFWorker\<close> constructor hands back.\<close>

datatype worker_value = WorkerRecord PdfWorker | WorkerNotRecord

text \<open>
  The value of \<open>pdfjs['PDFWorker']\<close> as \<open>tryCreateWorker\<close> probes it: whether it is
  a record, its \<open>create\<close> property when that is a function, whether it is itself a
  function, and what constructing it gives.
\<close>

record PdfWorkerApi =
  pw_isRecord :: bool
  pw_create :: "(thrown + worker_value) option"
  pw_isFunction :: bool
  pw_construct :: "thrown + worker_value"

text \<open>What \<open>getDocument\<close> is asked to open: a resource URL, or the bytes of the file.\<close>

datatype DocumentSource = FromUrl string | FromData

text \<open>
  The pdf.js module: its \<open>PDFWorker\<close> property, and its \<open>getDocument\<close> function when
  it has one. The outcome of \<open>getDocument\<close> includes the awaited promise of the loading
  task and may depend on the worker passed in. A value that is not a record has neither.
\<close>

record PdfJs =
  PDFWorker :: PdfWorkerApi
  getDocument :: "(DocumentSource \<Rightarrow> PdfWorker option \<Rightarrow> thrown + PdfDocument) option"

datatype pdfjs_value = PdfjsNotRecord | PdfjsRecord PdfJs

text \<open>
  The outcomes of the other foreign calls of one \<open>renderPdfCoverThumbnail\<close> call;
  \<open>getContext\<close> includes the creation of the canvas.
\<close>

record RenderEnv =
  loadPdfJs :: "thrown + pdfjs_value"
  getResourcePath :: "TFile \<Rightarrow> thrown + string"
  readBinary :: "string \<Rightarrow> thrown + unit"
  getContext :: "Canvas \<Rightarrow> thrown + bool"
  toBlob :: "Canvas \<Rightarrow> string \<Rightarrow> number option \<Rightarrow> thrown + Blob option"

text \<open>
  How a call of \<open>renderPdfCoverThumbnail\<close> ends: it stays suspended in
  \<open>renderLimiter.acquire()\<close>, or it completes, by raising or by returning.
\<close>

datatype 'a completion = Suspended | Completed "thrown + 'a"

section \<open>PDF cover thumbnails: the shared worker and its idle timer\<close>

definition emit :: "event \<Rightarrow> ModuleState \<Rightarrow> ModuleState" where
  "emit e s = s\<lparr>trace := trace s @ [e]\<rparr>"

text \<open>
  Modelled from the spec: the render limiter \<open>createRenderLimiter\<close> of
  \<open>thumbnailRuntimeUtils\<close>, which is not among the sources. A request is admitted when
  the active count is below the maximum, and counts as active until its release
  capability is called; a request that cannot be admitted leaves its caller suspended.
\<close>

definition getActiveCount :: "ModuleState \<Rightarrow> nat" where
  "getActiveCount s = activeCount s"

definition limiter_acquire :: "ModuleState \<Rightarrow> ModuleState option" where
  "limiter_acquire s =
     (if activeCount s < MAX_PARALLEL_PDF_RENDERS
      then Some (emit EvAcquire (s\<lparr>activeCount := activeCount s + 1\<rparr>))
      else None)"

definition limiter_release :: "ModuleState \<Rightarrow> ModuleState" where
  "limiter_release s = emit EvRelease (s\<lparr>activeCount := activeCount s - 1\<rparr>)"

text \<open>\<open>window.setTimeout\<close> and \<open>window.clearTimeout\<close>.\<close>

definition setTimeout :: "nat \<Rightarrow> ModuleState \<Rightarrow> nat \<times> ModuleState" where
  "setTimeout delay s =
     (nextTimerId s,
      s\<lparr>pendingTimers := pendingTimers s @ [(nextTimerId s, delay)],
        nextTimerId := nextTimerId s + 1\<rparr>)"

definition clearTimeout :: "nat \<Rightarrow> ModuleState \<Rightarrow> ModuleState" where
  "clearTimeout t s = s\<lparr>pendingTimers := filter (\<lambda>p. fst p \<noteq> t) (pendingTimers s)\<rparr>"

definition clearWorkerIdleTimer :: "ModuleState \<Rightarrow> ModuleState" where
  "clearWorkerIdleTimer s =
     (case workerIdleTimerId s of
        None \<Rightarrow> s
      | Some t \<Rightarrow> (clearTimeout t s)\<lparr>workerIdleTimerId := None\<rparr>)"

definition touchWorkerIdleTimer :: "ModuleState \<Rightarrow> ModuleState" where
  "touchWorkerIdleTimer s =
     (let s1 = clearWorkerIdleTimer s
      in if sharedWorker s1 = None then s1
         else if getActiveCount s1 > 0 then s1
         else
           (let (t, s2) = setTimeout DEFAULT_WORKER_IDLE_TIMEOUT_MS s1
            in s2\<lparr>workerIdleTimerId := Some t\<rparr>))"

definition destroySharedWorker :: "ModuleState \<Rightarrow> ModuleState" where
  "destroySharedWorker s =
     (let s1 = clearWorkerIdleTimer s;
          worker = sharedWorker s1;
          s2 = s1\<lparr>sharedWorker := None\<rparr>
      in case worker of
           None \<Rightarrow> s2
         | Some w \<Rightarrow>
             (case destroy w of
                Absent \<Rightarrow> s2
              | Returning \<Rightarrow> emit (EvWorkerDestroy (worker_id w)) s2
              | Throwing \<Rightarrow> emit (EvWorkerDestroy (worker_id w)) s2))"

text \<open>The callback that \<open>touchWorkerIdleTimer\<close> hands to \<open>window.setTimeout\<close>.\<close>

definition idleTimerCallback :: "ModuleState \<Rightarrow> ModuleState" where
  "idleTimerCallback s =
     (if getActiveCount s > 0 then touchWorkerIdleTimer s else destroySharedWorker s)"

text \<open>
  The window fires a pending timer: the timer leaves the pending ones and its callback
  runs. Every timer of this module carries the callback above. A timer that is not
  pending does not fire.
\<close>

definition fireTimer :: "nat \<Rightarrow> ModuleState \<Rightarrow> ModuleState option" where
  "fireTimer t s =
     (if t \<in> fst ` set (pendingTimers s)
      then Some (idleTimerCallback (clearTimeout t s))
      else None)"

definition workerFromValue :: "thrown + worker_value \<Rightarrow> PdfWorker option" where
  "workerFromValue r =
     (case r of
        Inl e \<Rightarrow> None
      | Inr WorkerNotRecord \<Rightarrow> None
      | Inr (WorkerRecord w) \<Rightarrow> Some w)"

definition tryCreateWorker :: "pdfjs_value \<Rightarrow> ModuleState \<Rightarrow> PdfWorker option \<times> ModuleState" where
  "tryCreateWorker pdfjs s =
     (case pdfjs of
        PdfjsNotRecord \<Rightarrow> (None, s)
      | PdfjsRecord lib \<Rightarrow>
          (let pdfWorker = PDFWorker lib
           in case (if pw_isRecord pdfWorker then pw_create pdfWorker else None) of
                Some created \<Rightarrow> (workerFromValue created, emit EvCreateWorker s)
              | None \<Rightarrow>
                  if pw_isFunction pdfWorker
                  then (workerFromValue (pw_construct pdfWorker), emit EvCreateWorker s)
                  else (None, s)))"

definition getSharedWorkerInstance ::
  "pdfjs_value \<Rightarrow> ModuleState \<Rightarrow> PdfWorker option \<times> ModuleState" where
  "getSharedWorkerInstance pdfjs s =
     (case sharedWorker s of
        Some w \<Rightarrow> (Some w, touchWorkerIdleTimer s)
      | None \<Rightarrow>
          (let (worker, s1) = tryCreateWorker pdfjs s
           in case worker of
                None \<Rightarrow> (None, s1)
              | Some w \<Rightarrow> (Some w, touchWorkerIdleTimer (s1\<lparr>sharedWorker := Some w\<rparr>))))"

section \<open>PDF cover thumbnails: rendering\<close>

record ScaleParams =
  baseWidth :: number
  baseHeight :: number
  maxWidth :: number
  maxHeight :: number

definition calculateScale :: "ScaleParams \<Rightarrow> number" where
  "calculateScale params =
     (if js_le (baseWidth params) (Fin 0) \<or> js_le (baseHeight params) (Fin 0)
         \<or> js_le (maxWidth params) (Fin 0) \<or> js_le (maxHeight params) (Fin 0)
      then Fin 1
      else
        (let widthScale = js_div (maxWidth params) (baseWidth params);
             heightScale = js_div (maxHeight params) (baseHeight params);
             scale = js_min widthScale heightScale
         in js_min (Fin 1) scale))"


text \<open>\<open>String.prototype.toLowerCase\<close> on the ASCII letters.\<close>

definition toLowerCase_char :: "char \<Rightarrow> char" where
  "toLowerCase_char c =
     (if (65::nat) \<le> of_char c \<and> of_char c \<le> (90::nat)
      then char_of ((of_char c :: nat) + 32) else c)"

definition toLowerCase :: "string \<Rightarrow> string" where
  "toLowerCase s = map toLowerCase_char s"

text \<open>\<open>canvasToBlob\<close>: the promise around \<open>canvas.toBlob\<close>, with its trace entry.\<close>

definition canvasToBlob ::
  "RenderEnv \<Rightarrow> Canvas \<Rightarrow> string \<Rightarrow> number option \<Rightarrow> ModuleState
     \<Rightarrow> (thrown + Blob option) \<times> ModuleState" where
  "canvasToBlob env canvas mime q s = (toBlob env canvas mime q, emit (EvToBlob mime) s)"

text \<open>
  A call of \<open>pdfjs.getDocument\<close> with the awaited promise of its task. When the
  module is not a record, or has no such function, the call expression throws and no
  call is made.
\<close>

definition callGetDocument ::
  "pdfjs_value \<Rightarrow> DocumentSource \<Rightarrow> PdfWorker option \<Rightarrow> ModuleState
     \<Rightarrow> (thrown + PdfDocument) \<times> ModuleState" where
  "callGetDocument pdfjs source worker s =
     (case pdfjs of
        PdfjsNotRecord \<Rightarrow> (Inl Thrown, s)
      | PdfjsRecord lib \<Rightarrow>
          (case getDocument lib of
             None \<Rightarrow> (Inl Thrown, s)
           | Some opener \<Rightarrow>
               (opener source worker,
                emit (case source of
                        FromUrl url \<Rightarrow> EvGetDocumentUrl (map_option worker_id worker)
                      | FromData \<Rightarrow> EvGetDocumentData (map_option worker_id worker)) s)))"

text \<open>
  The first part of the \<open>try\<close> block: the document is opened from its resource URL and,
  when that throws, from the bytes read through the vault adapter.
\<close>

definition openDocument ::
  "RenderEnv \<Rightarrow> pdfjs_value \<Rightarrow> TFile \<Rightarrow> string \<Rightarrow> PdfWorker option \<Rightarrow> ModuleState
     \<Rightarrow> (thrown + PdfDocument) \<times> ModuleState" where
  "openDocument env pdfjs pdfFile url worker s =
     (case callGetDocument pdfjs (FromUrl url) worker s of
        (Inr doc, s1) \<Rightarrow> (Inr doc, s1)
      | (Inl e, s1) \<Rightarrow>
          (let s2 = emit EvReadBinary s1
           in case readBinary env (path pdfFile) of
                Inl e' \<Rightarrow> (Inl e', s2)
              | Inr buffer \<Rightarrow> callGetDocument pdfjs FromData worker s2))"

text \<open>The part of the \<open>try\<close> block after \<open>page = firstPage\<close>.\<close>

definition renderPage ::
  "RenderEnv \<Rightarrow> PdfCoverThumbnailOptions \<Rightarrow> PdfPage \<Rightarrow> ModuleState
     \<Rightarrow> (thrown + Blob option) \<times> ModuleState" where
  "renderPage env options firstPage s =
     (let s1 = emit EvGetViewport s
      in case getViewport firstPage (Fin 1) of
           Inl e \<Rightarrow> (Inl e, s1)
         | Inr baseViewport \<Rightarrow>
             (let scale = calculateScale
                    \<lparr>baseWidth = width baseViewport, baseHeight = height baseViewport,
                     maxWidth = opt_maxWidth options, maxHeight = opt_maxHeight options\<rparr>;
                  s2 = emit EvGetViewport s1
              in case getViewport firstPage scale of
                   Inl e \<Rightarrow> (Inl e, s2)
                 | Inr viewport \<Rightarrow>
                     (let canvas = \<lparr>canvas_width = js_max (Fin 1) (js_ceil (width viewport)),
                                    canvas_height = js_max (Fin 1) (js_ceil (height viewport))\<rparr>;
                          s3 = emit EvGetContext s2
                      in case getContext env canvas of
                           Inl e \<Rightarrow> (Inl e, s3)
                         | Inr False \<Rightarrow> (Inr None, s3)
                         | Inr True \<Rightarrow>
                             (let s4 = emit EvRender s3
                              in case render firstPage of
                                   Inl e \<Rightarrow> (Inl e, s4)
                                 | Inr done \<Rightarrow>
                                     (case canvasToBlob env canvas (mimeType options) (quality options) s4 of
                                        (Inl e, s5) \<Rightarrow> (Inl e, s5)
                                      | (Inr (Some blob), s5) \<Rightarrow> (Inr (Some blob), s5)
                                      | (Inr None, s5) \<Rightarrow>
                                          canvasToBlob env canvas ''image/png'' None s5)))))"

text \<open>
  The \<open>try\<close> block. Besides its outcome and the state it gives the values of the local
  variables \<open>doc\<close> and \<open>page\<close>, which the \<open>finally\<close> block reads.
\<close>

definition renderTry ::
  "RenderEnv \<Rightarrow> TFile \<Rightarrow> PdfCoverThumbnailOptions \<Rightarrow> ModuleState
     \<Rightarrow> (thrown + Blob option) \<times> (PdfDocument option \<times> PdfPage option) \<times> ModuleState" where
  "renderTry env pdfFile options s =
     (let s1 = emit EvLoadPdfJs s
      in case loadPdfJs env of
           Inl e \<Rightarrow> (Inl e, (None, None), s1)
         | Inr pdfjs \<Rightarrow>
             (let (worker, s2) = getSharedWorkerInstance pdfjs s1;
                  s3 = emit EvGetResourcePath s2
              in case getResourcePath env pdfFile of
                   Inl e \<Rightarrow> (Inl e, (None, None), s3)
                 | Inr url \<Rightarrow>
                     (case openDocument env pdfjs pdfFile url worker s3 of
                        (Inl e, s4) \<Rightarrow> (Inl e, (None, None), s4)
                      | (Inr doc, s4) \<Rightarrow>
                          (let s5 = emit EvGetPage s4
                           in case getPage doc of
                                Inl e \<Rightarrow> (Inl e, (Some doc, None), s5)
                              | Inr NotPdfPage \<Rightarrow> (Inr None, (Some doc, None), s5)
                              | Inr (IsPdfPage firstPage) \<Rightarrow>
                                  (let (r, s6) = renderPage env options firstPage s5
                                   in (r, (Some doc, Some firstPage), s6))))))"

text \<open>The \<open>catch\<close> block: the error is logged once and the result is null.\<close>

definition renderCatch ::
  "TFile \<Rightarrow> (thrown + Blob option) \<times> ModuleState \<Rightarrow> (thrown + Blob option) \<times> ModuleState" where
  "renderCatch pdfFile rs =
     (case rs of
        (Inl error, s) \<Rightarrow> (Inr None, emit (EvLogOnce (''pdf-cover:'' @ path pdfFile)) s)
      | (Inr v, s) \<Rightarrow> (Inr v, s))"

text \<open>
  The \<open>finally\<close> block: the two guarded clean-ups, whose errors are swallowed, then the
  release of the permit and the touch of the idle timer.
\<close>

definition renderFinally :: "PdfDocument option \<times> PdfPage option \<Rightarrow> ModuleState \<Rightarrow> ModuleState" where
  "renderFinally locals s =
     (let s1 = (case snd locals of
                  None \<Rightarrow> s
                | Some page \<Rightarrow> (case cleanup page of Absent \<Rightarrow> s | _ \<Rightarrow> emit EvPageCleanup s));
          s2 = (case fst locals of
                  None \<Rightarrow> s1
                | Some doc \<Rightarrow> (case doc_destroy doc of Absent \<Rightarrow> s1 | _ \<Rightarrow> emit EvDocDestroy s1));
          s3 = limiter_release s2
      in touchWorkerIdleTimer s3)"

definition renderPdfCoverThumbnail ::
  "RenderEnv \<Rightarrow> TFile \<Rightarrow> PdfCoverThumbnailOptions \<Rightarrow> ModuleState
     \<Rightarrow> Blob option completion \<times> ModuleState" where
  "renderPdfCoverThumbnail env pdfFile options s =
     (if toLowerCase (extension pdfFile) \<noteq> ''pdf'' then (Completed (Inr None), s)
      else
        (let fileSize = (case stat_size pdfFile of None \<Rightarrow> 0 | Some n \<Rightarrow> n)
         in if fileSize > MAX_PDF_THUMBNAIL_BYTES
            then (Completed (Inr None), emit (EvLogOnce (''pdf-cover:skip-size:'' @ path pdfFile)) s)
            else
              (case limiter_acquire (clearWorkerIdleTimer s) of
                 None \<Rightarrow> (Suspended, clearWorkerIdleTimer s)
               | Some s1 \<Rightarrow>
                   (let (r, locals, s2) = renderTry env pdfFile options s1;
                        (r', s3) = renderCatch pdfFile (r, s2);
                        s4 = renderFinally locals s3
                    in (Completed r', s4)))))"

section \<open>Observations on a trace\<close>

text \<open>The permit operations of a trace, in order.\<close>

definition permitEvents :: "event list \<Rightarrow> event list" where
  "permitEvents es = filter (\<lambda>e. e = EvAcquire \<or> e = EvRelease) es"

text \<open>A step that leaves the limiter alone: same active count, no permit operation.\<close>

definition sameLimiter :: "ModuleState \<Rightarrow> ModuleState \<Rightarrow> bool" where
  "sameLimiter s s' \<longleftrightarrow>
     activeCount s' = activeCount s \<and> permitEvents (trace s') = permitEvents (trace s)"

section \<open>Sample inputs of the thumbnail renderer\<close>

text \<open>
  A state in which a render holds a permit while an idle timer of the worker is still
  pending.
\<close>

definition raceState :: ModuleState where
  "raceState =
     \<lparr>sharedWorker = Some \<lparr>worker_id = 1, destroy = Returning\<rparr>,
      workerIdleTimerId = Some 0, pendingTimers = [(0, 60000)], nextTimerId = 1,
      activeCount = 1, trace = []\<rparr>"

text \<open>The same worker and timer with no render active.\<close>

definition idleState :: ModuleState where
  "idleState = raceState\<lparr>activeCount := 0\<rparr>"

definition initialState :: ModuleState where
  "initialState =
     \<lparr>sharedWorker = None, workerIdleTimerId = None, pendingTimers = [], nextTimerId = 0,
      activeCount = 0, trace = []\<rparr>"

definition samplePdf :: TFile where
  "samplePdf =
     \<lparr>path = ''books/b.pdf'', name = ''b.pdf'', extension = ''PDF'', stat_mtime = 3,
      stat_size = Some 4096\<rparr>"

definition hugePdf :: TFile where
  "hugePdf = samplePdf\<lparr>stat_size := Some (26 * 1024 * 1024)\<rparr>"

definition sampleOptions :: PdfCoverThumbnailOptions where
  "sampleOptions =
     \<lparr>opt_maxWidth = Fin 256, opt_maxHeight = Fin 256, mimeType = ''image/webp'',
      quality = Some (Fin (3 / 4))\<rparr>"

definition samplePage :: PdfPage where
  "samplePage =
     \<lparr>getViewport = (\<lambda>scale. Inr \<lparr>width = js_mul (Fin 512) scale, height = js_mul (Fin 1024) scale\<rparr>),
      render = Inr (), cleanup = Returning\<rparr>"

definition sampleDocument :: PdfDocument where
  "sampleDocument = \<lparr>getPage = Inr (IsPdfPage samplePage), doc_destroy = Throwing\<rparr>"

definition sampleBlob :: "Canvas \<Rightarrow> string \<Rightarrow> Blob" where
  "sampleBlob canvas mime =
     \<lparr>blob_type = mime,
      blob_size = nat \<lfloor>finiteValue (canvas_width canvas) * finiteValue (canvas_height canvas)\<rfloor>\<rparr>"

text \<open>
  A renderer whose worker cannot be constructed and whose open from the resource URL
  throws, while the open from the bytes and the render succeed.
\<close>

definition fallbackPdfjs :: PdfJs where
  "fallbackPdfjs =
     \<lparr>PDFWorker = \<lparr>pw_isRecord = False, pw_create = None, pw_isFunction = True,
                    pw_construct = Inl Thrown\<rparr>,
      getDocument = Some (\<lambda>source worker.
                      case source of FromUrl url \<Rightarrow> Inl Thrown | FromData \<Rightarrow> Inr sampleDocument)\<rparr>"

definition fallbackEnv :: RenderEnv where
  "fallbackEnv =
     \<lparr>loadPdfJs = Inr (PdfjsRecord fallbackPdfjs),
      getResourcePath = (\<lambda>f. Inr (''app://local/'' @ path f)),
      readBinary = (\<lambda>p. Inr ()),
      getContext = (\<lambda>canvas. Inr True),
      toBlob = (\<lambda>canvas mime q. Inr (Some (sampleBlob canvas mime)))\<rparr>"

text \<open>A renderer whose two ways of opening the document both throw.\<close>

definition brokenEnv :: RenderEnv where
  "brokenEnv =
     fallbackEnv\<lparr>loadPdfJs :=
       Inr (PdfjsRecord (fallbackPdfjs\<lparr>getDocument := Some (\<lambda>source worker. Inl Thrown)\<rparr>))\<rparr>"


section \<open>The weighted admission limiter\<close>

text \<open>
  Modelled from the spec: \<open>createRenderBudgetLimiter\<close> of \<open>thumbnailRuntimeUtils\<close>,
  of which the sources hold only the tests. The limiter has a fixed total budget.
  \<open>acquire(weight)\<close> clamps a weight above the budget to the budget, queues the request
  behind the earlier ones, and the request is admitted, in arrival order, once its weight
  fits into the budget next to the admitted weight; the promise of \<open>acquire\<close> resolves
  when its request is among the admitted ones. \<open>release\<close> frees the weight of an admitted
  request and admits the next waiters in arrival order. A negative weight and the release
  of a permit that is not held are programming errors: the call fails and the limiter
  stays as it was.
\<close>

record Limiter =
  totalBudget :: int
  activeWeight :: int
  admitted :: "(nat \<times> int) list"
  waiters :: "(nat \<times> int) list"
  nextPermit :: nat

datatype limiter_error = InvalidWeight | DoubleRelease

definition createRenderBudgetLimiter :: "int \<Rightarrow> Limiter" where
  "createRenderBudgetLimiter budget =
     \<lparr>totalBudget = budget, activeWeight = 0, admitted = [], waiters = [], nextPermit = 0\<rparr>"

definition getActiveWeight :: "Limiter \<Rightarrow> int" where
  "getActiveWeight l = activeWeight l"

text \<open>Waiters are admitted from the head of the queue for as long as the head fits.\<close>

fun admitWaiters :: "Limiter \<Rightarrow> (nat \<times> int) list \<Rightarrow> Limiter" where
  "admitWaiters l [] = l\<lparr>waiters := []\<rparr>"
| "admitWaiters l (p # ps) =
     (if activeWeight l + snd p \<le> totalBudget l
      then admitWaiters (l\<lparr>activeWeight := activeWeight l + snd p, admitted := admitted l @ [p]\<rparr>) ps
      else l\<lparr>waiters := p # ps\<rparr>)"

definition acquire :: "int \<Rightarrow> Limiter \<Rightarrow> limiter_error + nat \<times> Limiter" where
  "acquire weight l =
     (if weight < 0 then Inl InvalidWeight
      else
        (let clamped = min weight (totalBudget l);
             permit = nextPermit l
         in Inr (permit,
                 admitWaiters (l\<lparr>nextPermit := permit + 1\<rparr>) (waiters l @ [(permit, clamped)]))))"

definition release :: "nat \<Rightarrow> Limiter \<Rightarrow> limiter_error + Limiter" where
  "release permit l =
     (case map_of (admitted l) permit of
        None \<Rightarrow> Inl DoubleRelease
      | Some weight \<Rightarrow>
          Inr (admitWaiters
                 (l\<lparr>activeWeight := activeWeight l - weight,
                    admitted := remove1 (permit, weight) (admitted l)\<rparr>)
                 (waiters l)))"

text \<open>A sequence of calls on a limiter; a failing call leaves the limiter as it was.\<close>

datatype limiter_call = Acquire int | Release nat

definition limiterCall :: "limiter_call \<Rightarrow> Limiter \<Rightarrow> Limiter" where
  "limiterCall c l =
     (case c of
        Acquire weight \<Rightarrow> (case acquire weight l of Inl e \<Rightarrow> l | Inr (permit, l') \<Rightarrow> l')
      | Release permit \<Rightarrow> (case release permit l of Inl e \<Rightarrow> l | Inr l' \<Rightarrow> l'))"

fun limiterCalls :: "Limiter \<Rightarrow> limiter_call list \<Rightarrow> Limiter" where
  "limiterCalls l [] = l"
| "limiterCalls l (c # cs) = limiterCalls (limiterCall c l) cs"

text \<open>
  The accounting of a limiter: the active weight is the sum of the admitted weights,
  every weight is a clamped valid weight, and the sum stays within the budget.
\<close>

definition limiterAccounted :: "Limiter \<Rightarrow> bool" where
  "limiterAccounted l \<longleftrightarrow>
     0 \<le> totalBudget l \<and>
     activeWeight l = sum_list (map snd (admitted l)) \<and>
     (\<forall>p \<in> set (admitted l). 0 \<le> snd p) \<and>
     (\<forall>p \<in> set (waiters l). 0 \<le> snd p) \<and>
     activeWeight l \<le> totalBudget l"

section \<open>The JSON serialisation determines the list\<close>

text \<open>
  Two lists of strings have the same serialisation only if they are the same list. The
  proof reads a serialisation from the left: the escape of a character is never a proper
  prefix of the escape of another one, and never begins with the closing quote.
\<close>

lemma hexDigits_distinct: "distinct ''0123456789abcdef''"
  by simp

lemma hexDigit_inj: "m < 16 \<Longrightarrow> n < 16 \<Longrightarrow> hexDigit m = hexDigit n \<Longrightarrow> m = n"
  unfolding hexDigit_def using hexDigits_distinct by (simp add: nth_eq_iff_index_eq)


lemma unicode_escape_inj:
  fixes c d :: char
  assumes "(of_char c :: nat) < 32" "(of_char d :: nat) < 32"
    and "hexDigit ((of_char c :: nat) div 16) = hexDigit ((of_char d :: nat) div 16)"
    and "hexDigit ((of_char c :: nat) mod 16) = hexDigit ((of_char d :: nat) mod 16)"
  shows "c = d"
proof -
  let ?m = "of_char c :: nat" and ?n = "of_char d :: nat"
  have "?m div 16 < 16" "?n div 16 < 16" using assms(1,2) by simp_all
  with assms(3) have q: "?m div 16 = ?n div 16" by (rule hexDigit_inj[rotated 2])
  have "?m mod 16 < 16" "?n mod 16 < 16" by simp_all
  with assms(4) have r: "?m mod 16 = ?n mod 16" by (rule hexDigit_inj[rotated 2])
  from q r have "?m = ?n" by (metis div_mult_mod_eq)
  then show ?thesis by simp
qed

lemma QuoteJSONChar_prefix:
  "QuoteJSONChar c @ x = QuoteJSONChar d @ y \<Longrightarrow> c = d \<and> x = y"
  unfolding QuoteJSONChar_def
  by (auto split: if_splits dest: unicode_escape_inj)

lemma QuoteJSONChar_no_quote: "QuoteJSONChar c @ x \<noteq> CHR 0x22 # y"
  unfolding QuoteJSONChar_def by (auto split: if_splits)


lemma quoted_body_prefix:
  "concat (map QuoteJSONChar s) @ CHR 0x22 # x = concat (map QuoteJSONChar t) @ CHR 0x22 # y
     \<Longrightarrow> s = t \<and> x = y"
proof (induction s arbitrary: t)
  case Nil
  then show ?case
    by (cases t) (auto dest: QuoteJSONChar_no_quote[THEN notE, OF sym])
next
  case (Cons c s)
  show ?case
  proof (cases t)
    case Nil
    with Cons.prems show ?thesis
      by (auto dest: QuoteJSONChar_no_quote[THEN notE])
  next
    case (Cons d t')
    with Cons.prems
    have "QuoteJSONChar c @ (concat (map QuoteJSONChar s) @ CHR 0x22 # x)
        = QuoteJSONChar d @ (concat (map QuoteJSONChar t') @ CHR 0x22 # y)"
      by simp
    then have "c = d" and "concat (map QuoteJSONChar s) @ CHR 0x22 # x
        = concat (map QuoteJSONChar t') @ CHR 0x22 # y"
      by (auto dest: QuoteJSONChar_prefix)
    with Cons.IH Cons show ?thesis by blast
  qed
qed

lemma QuoteJSONString_prefix:
  "QuoteJSONString s @ x = QuoteJSONString t @ y \<Longrightarrow> s = t \<and> x = y"
  unfolding QuoteJSONString_def using quoted_body_prefix [of s x t y] by simp

lemma joinComma_Cons:
  "joinComma (x # xs) @ r = x @ (if xs = [] then r else CHR '','' # joinComma xs @ r)"
  by (cases xs) simp_all

lemma joined_inj:
  "joinComma (map QuoteJSONString xs) @ '']'' = joinComma (map QuoteJSONString ys) @ '']''
     \<Longrightarrow> xs = ys"
proof (induction xs arbitrary: ys)
  case Nil
  show ?case
  proof (cases ys)
    case (Cons y ys')
    with Nil show ?thesis
      by (simp add: joinComma_Cons QuoteJSONString_def)
  qed simp
next
  case (Cons x xs)
  show ?case
  proof (cases ys)
    case Nil
    with Cons.prems show ?thesis
      by (simp add: joinComma_Cons QuoteJSONString_def)
  next
    case ys: (Cons y ys')
    from Cons.prems ys
    have e: "QuoteJSONString x
               @ (if map QuoteJSONString xs = [] then '']''
                  else CHR '','' # joinComma (map QuoteJSONString xs) @ '']'')
           = QuoteJSONString y
               @ (if map QuoteJSONString ys' = [] then '']''
                  else CHR '','' # joinComma (map QuoteJSONString ys') @ '']'')"
      by (simp only: list.map joinComma_Cons)
    from QuoteJSONString_prefix [OF e]
    have xy: "x = y"
      and rest: "(if map QuoteJSONString xs = [] then '']''
                  else CHR '','' # joinComma (map QuoteJSONString xs) @ '']'')
           = (if map QuoteJSONString ys' = [] then '']''
                  else CHR '','' # joinComma (map QuoteJSONString ys') @ '']'')"
      by simp_all
    have "xs = ys'"
    proof (cases "xs = []")
      case True
      with rest show ?thesis by (cases "ys' = []") simp_all
    next
      case False
      with rest have "ys' \<noteq> []" by (cases "ys' = []") simp_all
      with rest False
      have "joinComma (map QuoteJSONString xs) @ '']'' = joinComma (map QuoteJSONString ys') @ '']''"
        by simp
      then show ?thesis by (rule Cons.IH)
    qed
    with xy ys show ?thesis by simp
  qed
qed

lemma JSON_stringify_inj: "JSON_stringify xs = JSON_stringify ys \<longleftrightarrow> xs = ys"
  unfolding JSON_stringify_def using joined_inj [of xs ys] by auto

section \<open>Properties of the preview provider\<close>

text \<open>
  C4. \<open>shouldRegenerate\<close> returns true exactly when the preview was enabled in the old
  settings and is disabled in the new ones, or the preview is enabled in the new settings
  and the enable flag, the skip-headings flag, the skip-code-blocks flag, the strip-HTML
  flag or the list of preview properties (compared element by element) differs between
  the two snapshots; it returns false otherwise.
\<close>

theorem shouldRegenerate_spec_eq:
  "shouldRegenerate oldSettings newSettings = shouldRegenerate_spec oldSettings newSettings"
  unfolding shouldRegenerate_def shouldRegenerate_spec_def JSON_stringify_inj by auto

theorem shouldRegenerate_spec_eq_witness:
  "shouldRegenerate sampleSettings (sampleSettings\<lparr>previewProperties := [''summary'', ''abstract'']\<rparr>)
   \<and> shouldRegenerate sampleSettings (sampleSettings\<lparr>showFilePreview := False\<rparr>)
   \<and> \<not> shouldRegenerate sampleSettings sampleSettings
   \<and> \<not> shouldRegenerate (sampleSettings\<lparr>showFilePreview := False\<rparr>)
         (sampleSettings\<lparr>showFilePreview := False, stripHtmlInPreview := False\<rparr>)"
  using shouldRegenerate_spec_eq [of sampleSettings "sampleSettings\<lparr>previewProperties := [''summary'', ''abstract'']\<rparr>"]
    shouldRegenerate_spec_eq [of sampleSettings "sampleSettings\<lparr>showFilePreview := False\<rparr>"]
    shouldRegenerate_spec_eq [of sampleSettings sampleSettings]
    shouldRegenerate_spec_eq [of "sampleSettings\<lparr>showFilePreview := False\<rparr>"
      "sampleSettings\<lparr>showFilePreview := False, stripHtmlInPreview := False\<rparr>"]
  by (simp add: shouldRegenerate_spec_def sampleSettings_def)

text \<open>
  C5. \<open>needsProcessing\<close> is false when the preview feature is disabled or the document
  is not a Markdown file; otherwise it is true exactly when no record exists, or the
  stored preview is null, or the modification time of the document differs from the one
  stored in the record.
\<close>

theorem needsProcessing_spec:
  "needsProcessing env fileData file settings =
     (showFilePreview settings \<and> extension file = ''md'' \<and>
      (fileData = None \<or>
       (\<exists>fd. fileData = Some fd \<and> (preview fd = None \<or> mtime fd \<noteq> stat_mtime file))))"
  by (cases fileData) (auto simp: needsProcessing_def Let_def)

theorem needsProcessing_spec_witness:
  "needsProcessing readingEnv (Some \<lparr>mtime = 5, preview = Some ''hello''\<rparr>) sampleFile sampleSettings
   \<and> \<not> needsProcessing readingEnv (Some \<lparr>mtime = 7, preview = Some ''hello''\<rparr>) sampleFile sampleSettings
   \<and> needsProcessing readingEnv (Some \<lparr>mtime = 7, preview = None\<rparr>) sampleFile sampleSettings
   \<and> needsProcessing readingEnv None sampleFile sampleSettings
   \<and> \<not> needsProcessing readingEnv None (sampleFile\<lparr>extension := ''pdf''\<rparr>) sampleSettings
   \<and> \<not> needsProcessing readingEnv None sampleFile (sampleSettings\<lparr>showFilePreview := False\<rparr>)"
  using needsProcessing_spec [of readingEnv "Some \<lparr>mtime = 5, preview = Some ''hello''\<rparr>" sampleFile sampleSettings]
    needsProcessing_spec [of readingEnv "Some \<lparr>mtime = 7, preview = Some ''hello''\<rparr>" sampleFile sampleSettings]
    needsProcessing_spec [of readingEnv "Some \<lparr>mtime = 7, preview = None\<rparr>" sampleFile sampleSettings]
    needsProcessing_spec [of readingEnv None sampleFile sampleSettings]
    needsProcessing_spec [of readingEnv None "sampleFile\<lparr>extension := ''pdf''\<rparr>" sampleSettings]
    needsProcessing_spec [of readingEnv None sampleFile "sampleSettings\<lparr>showFilePreview := False\<rparr>"]
  by (simp add: sampleFile_def sampleSettings_def)

text \<open>
  C3. When the read or the extraction throws inside \<open>processFile\<close>: with a stored
  record whose preview is not null the result is null; with no record, or a record whose
  preview is null, the result is an update carrying the empty string; and a further
  failed attempt on any record that holds that empty string returns null again.
\<close>

theorem processFile_failure_policy:
  assumes "showFilePreview settings" and "extension (job_file job) = ''md''"
    and "\<not> isExcalidrawFile env (name (job_file job)) (frontmatter_of (getFileCache env (job_file job)))"
    and "readFileContent env (job_file job) = Inl e \<or>
         (\<exists>content. readFileContent env (job_file job) = Inr content \<and>
            extractPreviewText env content settings (frontmatter_of (getFileCache env (job_file job))) = Inl e)"
  shows "processFile env job fileData settings =
           (if \<exists>fd p. fileData = Some fd \<and> preview fd = Some p then None
            else Some \<lparr>upd_path = path (job_file job), upd_preview = ''''\<rparr>)
         \<and> (\<forall>fd'. preview fd' = Some '''' \<longrightarrow> processFile env job (Some fd') settings = None)"
  using assms
  by (auto simp: processFile_def processFile_try_def Let_def split: option.splits sum.splits)

theorem processFile_failure_policy_witness:
  "processFile failingEnv sampleJob (Some \<lparr>mtime = 7, preview = Some ''hello''\<rparr>) sampleSettings = None
   \<and> processFile failingEnv sampleJob None sampleSettings
       = Some \<lparr>upd_path = ''notes/a.md'', upd_preview = ''''\<rparr>
   \<and> processFile failingEnv sampleJob (Some \<lparr>mtime = 7, preview = None\<rparr>) sampleSettings
       = Some \<lparr>upd_path = ''notes/a.md'', upd_preview = ''''\<rparr>
   \<and> processFile failingEnv sampleJob (Some \<lparr>mtime = 7, preview = Some ''''\<rparr>) sampleSettings = None"
proof -
  have h: "showFilePreview sampleSettings" "extension (job_file sampleJob) = ''md''"
    "\<not> isExcalidrawFile failingEnv (name (job_file sampleJob))
         (frontmatter_of (getFileCache failingEnv (job_file sampleJob)))"
    "readFileContent failingEnv (job_file sampleJob) = Inl Thrown \<or>
       (\<exists>content. readFileContent failingEnv (job_file sampleJob) = Inr content \<and>
          extractPreviewText failingEnv content sampleSettings
            (frontmatter_of (getFileCache failingEnv (job_file sampleJob))) = Inl Thrown)"
    by (simp_all add: sampleSettings_def sampleJob_def sampleFile_def failingEnv_def)
  show ?thesis
    using processFile_failure_policy [OF h, of "Some \<lparr>mtime = 7, preview = Some ''hello''\<rparr>"]
      processFile_failure_policy [OF h, of None]
      processFile_failure_policy [OF h, of "Some \<lparr>mtime = 7, preview = None\<rparr>"]
    by (simp add: sampleJob_def sampleFile_def)
qed

text \<open>
  C6. When the read and the extraction succeed with the preview text \<open>t\<close>:
  \<open>processFile\<close> returns null if the stored record already holds \<open>t\<close>, and otherwise
  (no record, or a stored preview different from \<open>t\<close>) it returns the update carrying
  \<open>t\<close>.
\<close>

theorem processFile_unchanged_is_null:
  assumes "showFilePreview settings" and "extension (job_file job) = ''md''"
    and "\<not> isExcalidrawFile env (name (job_file job)) (frontmatter_of (getFileCache env (job_file job)))"
    and "readFileContent env (job_file job) = Inr content"
    and "extractPreviewText env content settings (frontmatter_of (getFileCache env (job_file job))) = Inr t"
  shows "processFile env job fileData settings =
           (if \<exists>fd. fileData = Some fd \<and> preview fd = Some t then None
            else Some \<lparr>upd_path = path (job_file job), upd_preview = t\<rparr>)"
  using assms
  by (auto simp: processFile_def processFile_try_def Let_def split: option.splits)

theorem processFile_unchanged_is_null_witness:
  "processFile readingEnv sampleJob (Some \<lparr>mtime = 5, preview = Some ''hello''\<rparr>) sampleSettings = None
   \<and> processFile readingEnv sampleJob (Some \<lparr>mtime = 5, preview = Some ''other''\<rparr>) sampleSettings
       = Some \<lparr>upd_path = ''notes/a.md'', upd_preview = ''hello''\<rparr>
   \<and> processFile readingEnv sampleJob None sampleSettings
       = Some \<lparr>upd_path = ''notes/a.md'', upd_preview = ''hello''\<rparr>"
proof -
  have h: "showFilePreview sampleSettings" "extension (job_file sampleJob) = ''md''"
    "\<not> isExcalidrawFile readingEnv (name (job_file sampleJob))
         (frontmatter_of (getFileCache readingEnv (job_file sampleJob)))"
    "readFileContent readingEnv (job_file sampleJob) = Inr ''hello world''"
    "extractPreviewText readingEnv ''hello world'' sampleSettings
       (frontmatter_of (getFileCache readingEnv (job_file sampleJob))) = Inr ''hello''"
    by (simp_all add: sampleSettings_def sampleJob_def sampleFile_def readingEnv_def)
  show ?thesis
    using processFile_unchanged_is_null [OF h, of "Some \<lparr>mtime = 5, preview = Some ''hello''\<rparr>"]
      processFile_unchanged_is_null [OF h, of "Some \<lparr>mtime = 5, preview = Some ''other''\<rparr>"]
      processFile_unchanged_is_null [OF h, of None]
    by (simp add: sampleJob_def sampleFile_def)
qed

section \<open>Rounding to a double\<close>

text \<open>
  The facts about the rounding that the properties of \<open>calculateScale\<close> rest on: the
  binade found from the bit lengths is not above the value, a positive exact result
  rounds to a non-negative double or to the infinity, and it rounds to zero when it is at
  most half the smallest subnormal number and to a positive double when it is at least the
  smallest subnormal number.
\<close>

lemma pow2_powi: "pow2 e = 2 powi e"
  by (simp add: pow2_def power_int_def inverse_eq_divide power_one_over)

lemma pow2_pos [simp]: "0 < pow2 e"
  by (simp add: pow2_powi)

lemma pow2_nonneg [simp]: "0 \<le> pow2 e"
  using pow2_pos [of e] by (rule less_imp_le)

lemma pow2_not_le_zero [simp]: "\<not> pow2 e \<le> 0"
  using pow2_pos [of e] by (simp only: not_le)

lemma pow2_neq_zero [simp]: "pow2 e \<noteq> 0"
  using pow2_pos [of e] by linarith

lemma pow2_not_less_zero [simp]: "\<not> pow2 e < 0"
  using pow2_pos [of e] by linarith















section \<open>Properties of the PDF cover thumbnails\<close>












section \<open>The stages of a render and the limiter\<close>

text \<open>
  What each operation of the module does to the fields of the state, and that no stage of
  the \<open>try\<close> block touches the limiter.
\<close>

lemma emit_fields [simp]:
  "sharedWorker (emit e s) = sharedWorker s"
  "workerIdleTimerId (emit e s) = workerIdleTimerId s"
  "pendingTimers (emit e s) = pendingTimers s"
  "nextTimerId (emit e s) = nextTimerId s"
  "activeCount (emit e s) = activeCount s"
  "trace (emit e s) = trace s @ [e]"
  by (simp_all add: emit_def)

lemma clearWorkerIdleTimer_fields [simp]:
  "sharedWorker (clearWorkerIdleTimer s) = sharedWorker s"
  "workerIdleTimerId (clearWorkerIdleTimer s) = None"
  "nextTimerId (clearWorkerIdleTimer s) = nextTimerId s"
  "activeCount (clearWorkerIdleTimer s) = activeCount s"
  "trace (clearWorkerIdleTimer s) = trace s"
  "pendingTimers (clearWorkerIdleTimer s)
     = filter (\<lambda>p. Some (fst p) \<noteq> workerIdleTimerId s) (pendingTimers s)"
  by (simp_all add: clearWorkerIdleTimer_def clearTimeout_def split: option.splits)

lemma touchWorkerIdleTimer_fields [simp]:
  "sharedWorker (touchWorkerIdleTimer s) = sharedWorker s"
  "activeCount (touchWorkerIdleTimer s) = activeCount s"
  "trace (touchWorkerIdleTimer s) = trace s"
  by (simp_all add: touchWorkerIdleTimer_def setTimeout_def getActiveCount_def Let_def)

lemma touchWorkerIdleTimer_busy:
  "0 < activeCount s \<Longrightarrow> touchWorkerIdleTimer s = clearWorkerIdleTimer s"
  by (simp add: touchWorkerIdleTimer_def getActiveCount_def Let_def)

lemma touchWorkerIdleTimer_idle:
  "activeCount s = 0 \<Longrightarrow> sharedWorker s \<noteq> None \<Longrightarrow>
   touchWorkerIdleTimer s =
     (clearWorkerIdleTimer s)
       \<lparr>pendingTimers := pendingTimers (clearWorkerIdleTimer s) @ [(nextTimerId s, DEFAULT_WORKER_IDLE_TIMEOUT_MS)],
        nextTimerId := nextTimerId s + 1,
        workerIdleTimerId := Some (nextTimerId s)\<rparr>"
  by (simp add: touchWorkerIdleTimer_def getActiveCount_def setTimeout_def Let_def)

lemma destroySharedWorker_fields [simp]:
  "sharedWorker (destroySharedWorker s) = None"
  "workerIdleTimerId (destroySharedWorker s) = None"
  "activeCount (destroySharedWorker s) = activeCount s"
  "nextTimerId (destroySharedWorker s) = nextTimerId s"
  "pendingTimers (destroySharedWorker s)
     = filter (\<lambda>p. Some (fst p) \<noteq> workerIdleTimerId s) (pendingTimers s)"
  "trace (destroySharedWorker s) =
     trace s @ (case sharedWorker s of
                  None \<Rightarrow> []
                | Some w \<Rightarrow> if destroy w = Absent then [] else [EvWorkerDestroy (worker_id w)])"
  by (simp_all add: destroySharedWorker_def Let_def split: option.splits js_method.splits)

lemma limiter_release_fields [simp]:
  "sharedWorker (limiter_release s) = sharedWorker s"
  "workerIdleTimerId (limiter_release s) = workerIdleTimerId s"
  "pendingTimers (limiter_release s) = pendingTimers s"
  "nextTimerId (limiter_release s) = nextTimerId s"
  "activeCount (limiter_release s) = activeCount s - 1"
  "trace (limiter_release s) = trace s @ [EvRelease]"
  by (simp_all add: limiter_release_def)

lemma sameLimiter_refl [simp]: "sameLimiter s s"
  by (simp add: sameLimiter_def)

lemma sameLimiter_trans: "sameLimiter s t \<Longrightarrow> sameLimiter t u \<Longrightarrow> sameLimiter s u"
  by (simp add: sameLimiter_def)

lemma sameLimiter_emit [simp]:
  "e \<noteq> EvAcquire \<Longrightarrow> e \<noteq> EvRelease \<Longrightarrow> sameLimiter s (emit e t) = sameLimiter s t"
  by (simp add: sameLimiter_def permitEvents_def)

lemma sameLimiter_clear [simp]: "sameLimiter s (clearWorkerIdleTimer t) = sameLimiter s t"
  by (simp add: sameLimiter_def)

lemma sameLimiter_touch [simp]: "sameLimiter s (touchWorkerIdleTimer t) = sameLimiter s t"
  by (simp add: sameLimiter_def)

lemma sameLimiter_sharedWorker_update [simp]:
  "sameLimiter s (t\<lparr>sharedWorker := w\<rparr>) = sameLimiter s t"
  by (simp add: sameLimiter_def)

lemma sameLimiter_tryCreateWorker [simp]:
  "sameLimiter s (snd (tryCreateWorker pdfjs t)) = sameLimiter s t"
  by (simp add: tryCreateWorker_def Let_def split: pdfjs_value.splits option.splits)

lemma sameLimiter_getSharedWorkerInstance [simp]:
  "sameLimiter s (snd (getSharedWorkerInstance pdfjs t)) = sameLimiter s t"
proof (cases "sharedWorker t")
  case None
  obtain w t1 where c: "tryCreateWorker pdfjs t = (w, t1)" by (cases "tryCreateWorker pdfjs t")
  have "sameLimiter s t1 = sameLimiter s t"
    using sameLimiter_tryCreateWorker [of s pdfjs t] c by simp
  with None c show ?thesis
    by (simp add: getSharedWorkerInstance_def split: option.splits)
next
  case (Some w)
  then show ?thesis by (simp add: getSharedWorkerInstance_def)
qed

lemma sameLimiter_canvasToBlob [simp]:
  "sameLimiter s (snd (canvasToBlob env canvas mime q t)) = sameLimiter s t"
  by (simp add: canvasToBlob_def)

lemma sameLimiter_callGetDocument [simp]:
  "sameLimiter s (snd (callGetDocument pdfjs source worker t)) = sameLimiter s t"
  by (simp add: callGetDocument_def
      split: pdfjs_value.splits option.splits DocumentSource.splits)

lemma sameLimiter_openDocument [simp]:
  "sameLimiter s (snd (openDocument env pdfjs pdfFile url worker t)) = sameLimiter s t"
proof -
  obtain r t1 where c: "callGetDocument pdfjs (FromUrl url) worker t = (r, t1)"
    by (cases "callGetDocument pdfjs (FromUrl url) worker t")
  have t1: "sameLimiter s t1 = sameLimiter s t"
    using sameLimiter_callGetDocument [of s pdfjs "FromUrl url" worker t] c by simp
  show ?thesis
  proof (cases r)
    case (Inr doc)
    with c t1 show ?thesis by (simp add: openDocument_def)
  next
    case (Inl e)
    show ?thesis
    proof (cases "readBinary env (path pdfFile)")
      case rb: (Inl e')
      with c Inl t1 show ?thesis by (simp add: openDocument_def)
    next
      case rb: (Inr buffer)
      have "sameLimiter s (snd (callGetDocument pdfjs FromData worker (emit EvReadBinary t1)))
              = sameLimiter s t"
        using t1 by simp
      with c Inl rb show ?thesis by (simp add: openDocument_def)
    qed
  qed
qed

lemma sameLimiter_renderPage [simp]:
  "sameLimiter s (snd (renderPage env options firstPage t)) = sameLimiter s t"
  by (simp add: renderPage_def canvasToBlob_def Let_def split: sum.splits bool.splits option.splits)

lemma sameLimiter_renderTry [simp]:
  "sameLimiter s (snd (snd (renderTry env pdfFile options t))) = sameLimiter s t"
proof (cases "loadPdfJs env")
  case (Inl e)
  then show ?thesis by (simp add: renderTry_def)
next
  case (Inr pdfjs)
  obtain worker t2 where g: "getSharedWorkerInstance pdfjs (emit EvLoadPdfJs t) = (worker, t2)"
    by (cases "getSharedWorkerInstance pdfjs (emit EvLoadPdfJs t)")
  have t2: "sameLimiter s t2 = sameLimiter s t"
    using sameLimiter_getSharedWorkerInstance [of s pdfjs "emit EvLoadPdfJs t"] g by simp
  show ?thesis
  proof (cases "getResourcePath env pdfFile")
    case (Inl e)
    with Inr g t2 show ?thesis by (simp add: renderTry_def)
  next
    case url: (Inr url)
    obtain d t4 where od: "openDocument env pdfjs pdfFile url worker (emit EvGetResourcePath t2) = (d, t4)"
      by (cases "openDocument env pdfjs pdfFile url worker (emit EvGetResourcePath t2)")
    have t4: "sameLimiter s t4 = sameLimiter s t"
      using sameLimiter_openDocument [of s env pdfjs pdfFile url worker "emit EvGetResourcePath t2"] od t2
      by simp
    show ?thesis
    proof (cases d)
      case (Inl e)
      with Inr g url od t4 show ?thesis by (simp add: renderTry_def)
    next
      case doc: (Inr doc)
      show ?thesis
      proof (cases "getPage doc")
        case (Inl e)
        with Inr g url od doc t4 show ?thesis by (simp add: renderTry_def)
      next
        case pv: (Inr pv)
        show ?thesis
        proof (cases pv)
          case NotPdfPage
          with Inr g url od doc pv t4 show ?thesis by (simp add: renderTry_def)
        next
          case (IsPdfPage firstPage)
          obtain r t6 where rp: "renderPage env options firstPage (emit EvGetPage t4) = (r, t6)"
            by (cases "renderPage env options firstPage (emit EvGetPage t4)")
          have "sameLimiter s t6 = sameLimiter s t"
            using sameLimiter_renderPage [of s env options firstPage "emit EvGetPage t4"] rp t4
            by simp
          with Inr g url od doc pv IsPdfPage rp show ?thesis by (simp add: renderTry_def)
        qed
      qed
    qed
  qed
qed

lemma sameLimiter_renderCatch [simp]:
  "sameLimiter s (snd (renderCatch pdfFile (r, t))) = sameLimiter s t"
  by (simp add: renderCatch_def split: sum.splits)

lemma renderCatch_returns: "\<exists>v. fst (renderCatch pdfFile rs) = Inr v"
  by (cases rs) (simp add: renderCatch_def split: sum.splits)

lemma renderFinally_limiter:
  "activeCount (renderFinally locals t) = activeCount t - 1"
  "permitEvents (trace (renderFinally locals t)) = permitEvents (trace t) @ [EvRelease]"
  by (simp_all add: renderFinally_def permitEvents_def Let_def split: option.splits js_method.splits)

lemma limiter_acquire_Some:
  "limiter_acquire s = Some s1 \<Longrightarrow>
     activeCount s1 = activeCount s + 1 \<and> trace s1 = trace s @ [EvAcquire]"
  by (auto simp: limiter_acquire_def split: if_splits)

lemma renderPdfCoverThumbnail_admitted:
  assumes "toLowerCase (extension pdfFile) = ''pdf''"
    and "(case stat_size pdfFile of None \<Rightarrow> 0 | Some n \<Rightarrow> n) \<le> MAX_PDF_THUMBNAIL_BYTES"
    and "limiter_acquire (clearWorkerIdleTimer s) = Some s1"
  shows "renderPdfCoverThumbnail env pdfFile options s =
           (Completed (fst (renderCatch pdfFile (fst (renderTry env pdfFile options s1),
                                                   snd (snd (renderTry env pdfFile options s1))))),
            renderFinally (fst (snd (renderTry env pdfFile options s1)))
              (snd (renderCatch pdfFile (fst (renderTry env pdfFile options s1),
                                         snd (snd (renderTry env pdfFile options s1))))))"
  using assms
  by (simp add: renderPdfCoverThumbnail_def Let_def split_beta)

lemma toLowerCase_PDF: "toLowerCase ''PDF'' = ''pdf''"
  by code_simp



lemma samplePdf_admissible:
  "toLowerCase (extension samplePdf) = ''pdf''"
  "(case stat_size samplePdf of None \<Rightarrow> 0 | Some n \<Rightarrow> n) \<le> MAX_PDF_THUMBNAIL_BYTES"
  by (simp_all add: samplePdf_def toLowerCase_PDF MAX_PDF_THUMBNAIL_BYTES_def)


lemma tryCreateWorker_sharedWorker [simp]:
  "sharedWorker (snd (tryCreateWorker pdfjs t)) = sharedWorker t"
  by (simp add: tryCreateWorker_def Let_def split: pdfjs_value.splits option.splits)





lemma renderFinally_rearms:
  assumes "activeCount t = 1" and "sharedWorker t \<noteq> None" and "workerIdleTimerId t = None"
  shows "workerIdleTimerId (renderFinally locals t) = Some (nextTimerId t)"
    and "pendingTimers (renderFinally locals t)
           = pendingTimers t @ [(nextTimerId t, DEFAULT_WORKER_IDLE_TIMEOUT_MS)]"
proof -
  obtain u where u: "renderFinally locals t = touchWorkerIdleTimer (limiter_release u)"
    and f: "activeCount u = activeCount t" "sharedWorker u = sharedWorker t"
      "workerIdleTimerId u = workerIdleTimerId t" "pendingTimers u = pendingTimers t"
      "nextTimerId u = nextTimerId t"
    by (cases "snd locals"; cases "fst locals")
       (auto simp: renderFinally_def Let_def split: js_method.splits)
  from assms f have "activeCount (limiter_release u) = 0" "sharedWorker (limiter_release u) \<noteq> None"
    by simp_all
  from touchWorkerIdleTimer_idle [OF this] assms(3) f
  show "workerIdleTimerId (renderFinally locals t) = Some (nextTimerId t)"
    and "pendingTimers (renderFinally locals t)
           = pendingTimers t @ [(nextTimerId t, DEFAULT_WORKER_IDLE_TIMEOUT_MS)]"
    unfolding u by simp_all
qed










lemma renderTry_early_throw:
  "loadPdfJs env = Inl e \<or> getResourcePath env pdfFile = Inl e
     \<Longrightarrow> \<exists>e'. fst (renderTry env pdfFile options t) = Inl e'"
  by (cases "loadPdfJs env"; cases "getResourcePath env pdfFile")
     (auto simp: renderTry_def Let_def split_beta)



lemma trace_callGetDocument:
  "set (trace t) \<subseteq> set (trace (snd (callGetDocument pdfjs source worker t)))"
  by (auto simp: callGetDocument_def split: pdfjs_value.splits option.splits)

lemma trace_openDocument:
  "set (trace t) \<subseteq> set (trace (snd (openDocument env pdfjs pdfFile url worker t)))"
proof -
  obtain r t1 where c: "callGetDocument pdfjs (FromUrl url) worker t = (r, t1)"
    by (cases "callGetDocument pdfjs (FromUrl url) worker t")
  have t1: "set (trace t) \<subseteq> set (trace t1)"
    using trace_callGetDocument [of t pdfjs "FromUrl url" worker] c by simp
  have "set (trace t1) \<subseteq> set (trace (snd (callGetDocument pdfjs FromData worker (emit EvReadBinary t1))))"
    using trace_callGetDocument [of "emit EvReadBinary t1" pdfjs FromData worker] by auto
  with c t1 show ?thesis
    by (cases r; cases "readBinary env (path pdfFile)") (auto simp: openDocument_def Let_def)
qed














section \<open>Properties of the shared worker and of the render\<close>

text \<open>
  C2 (as amended). When a pending idle timer fires with an active count of zero, the
  shared worker is destroyed (its \<open>destroy\<close> method, when it has one, is called) and both
  the worker handle and the timer handle are cleared. When it fires with a positive
  active count, the worker and the trace stay as they are, and the timer is not armed
  again at that moment: the timer handle is cleared and no timer is added to the pending
  ones, because \<open>touchWorkerIdleTimer\<close> returns before \<open>setTimeout\<close> while a render is
  active. The timer is armed again by the \<open>finally\<close> block of the render that brings the
  active count back to zero.
\<close>

theorem idle_timer_fire:
  assumes "fireTimer t s = Some s'"
  shows "(getActiveCount s = 0 \<longrightarrow>
            sharedWorker s' = None \<and> workerIdleTimerId s' = None \<and>
            trace s' = trace s @ (case sharedWorker s of
                                    None \<Rightarrow> []
                                  | Some w \<Rightarrow> if destroy w = Absent then [] else [EvWorkerDestroy (worker_id w)]))
       \<and> (0 < getActiveCount s \<longrightarrow>
            sharedWorker s' = sharedWorker s \<and> trace s' = trace s \<and>
            workerIdleTimerId s' = None \<and> nextTimerId s' = nextTimerId s \<and>
            pendingTimers s'
              = filter (\<lambda>p. Some (fst p) \<noteq> workerIdleTimerId s) (filter (\<lambda>p. fst p \<noteq> t) (pendingTimers s)))
       \<and> (getActiveCount s = 1 \<and> sharedWorker s \<noteq> None \<longrightarrow>
            workerIdleTimerId (renderFinally locals s') = Some (nextTimerId s') \<and>
            pendingTimers (renderFinally locals s')
              = pendingTimers s' @ [(nextTimerId s', DEFAULT_WORKER_IDLE_TIMEOUT_MS)])"
proof -
  from assms have s': "s' = idleTimerCallback (clearTimeout t s)"
    by (simp add: fireTimer_def split: if_splits)
  have idle: "getActiveCount s = 0 \<Longrightarrow> s' = destroySharedWorker (clearTimeout t s)"
    and busy: "0 < getActiveCount s \<Longrightarrow> s' = clearWorkerIdleTimer (clearTimeout t s)"
    unfolding s'
    by (simp_all add: idleTimerCallback_def getActiveCount_def clearTimeout_def
        touchWorkerIdleTimer_busy)
  show ?thesis
  proof (intro conjI impI)
    assume a: "getActiveCount s = 0"
    show "sharedWorker s' = None" and "workerIdleTimerId s' = None"
      unfolding idle [OF a] by simp_all
    show "trace s' = trace s @ (case sharedWorker s of
                                    None \<Rightarrow> []
                                  | Some w \<Rightarrow> if destroy w = Absent then [] else [EvWorkerDestroy (worker_id w)])"
      unfolding idle [OF a] by (simp add: clearTimeout_def)
  next
    assume a: "0 < getActiveCount s"
    show "sharedWorker s' = sharedWorker s" and "trace s' = trace s"
      and "workerIdleTimerId s' = None" and "nextTimerId s' = nextTimerId s"
      and "pendingTimers s'
              = filter (\<lambda>p. Some (fst p) \<noteq> workerIdleTimerId s) (filter (\<lambda>p. fst p \<noteq> t) (pendingTimers s))"
      unfolding busy [OF a] by (simp_all add: clearTimeout_def)
  next
    assume a: "getActiveCount s = 1 \<and> sharedWorker s \<noteq> None"
    then have b: "s' = clearWorkerIdleTimer (clearTimeout t s)"
      by (intro busy) simp
    from a have c: "activeCount s' = 1" "sharedWorker s' \<noteq> None" "workerIdleTimerId s' = None"
      unfolding b by (simp_all add: clearTimeout_def getActiveCount_def)
    from c show "workerIdleTimerId (renderFinally locals s') = Some (nextTimerId s')"
      by (simp add: renderFinally_rearms)
    from c show "pendingTimers (renderFinally locals s')
              = pendingTimers s' @ [(nextTimerId s', DEFAULT_WORKER_IDLE_TIMEOUT_MS)]"
      by (simp add: renderFinally_rearms)
  qed
qed

theorem idle_timer_fire_witness:
  "fireTimer 0 idleState
     = Some (idleState\<lparr>sharedWorker := None, workerIdleTimerId := None, pendingTimers := [],
                      trace := [EvWorkerDestroy 1]\<rparr>)
   \<and> getActiveCount idleState = 0
   \<and> fireTimer 0 raceState = Some (raceState\<lparr>workerIdleTimerId := None, pendingTimers := []\<rparr>)
   \<and> getActiveCount raceState = 1
   \<and> workerIdleTimerId
        (renderFinally (None, None) (raceState\<lparr>workerIdleTimerId := None, pendingTimers := []\<rparr>))
       = Some 1
   \<and> pendingTimers
        (renderFinally (None, None) (raceState\<lparr>workerIdleTimerId := None, pendingTimers := []\<rparr>))
       = [(1, 60000)]"
proof -
  have i: "fireTimer 0 idleState
     = Some (idleState\<lparr>sharedWorker := None, workerIdleTimerId := None, pendingTimers := [],
                      trace := [EvWorkerDestroy 1]\<rparr>)"
    by (simp add: idleState_def raceState_def fireTimer_def idleTimerCallback_def
        getActiveCount_def clearTimeout_def destroySharedWorker_def clearWorkerIdleTimer_def
        emit_def Let_def)
  have r: "fireTimer 0 raceState = Some (raceState\<lparr>workerIdleTimerId := None, pendingTimers := []\<rparr>)"
    by (simp add: raceState_def fireTimer_def idleTimerCallback_def getActiveCount_def
        clearTimeout_def touchWorkerIdleTimer_def clearWorkerIdleTimer_def Let_def)
  show ?thesis
    using idle_timer_fire [OF i, of "(None, None)"] idle_timer_fire [OF r, of "(None, None)"] i r
    by (simp add: idleState_def raceState_def getActiveCount_def DEFAULT_WORKER_IDLE_TIMEOUT_MS_def)
qed

text \<open>
  The claim as it was stated fails: in a state with a worker, a pending timer and one
  active render, firing the timer leaves no timer pending and no timer handle.
\<close>

theorem idle_timer_not_rearmed:
  "0 < getActiveCount raceState \<and>
   fireTimer 0 raceState = Some (raceState\<lparr>workerIdleTimerId := None, pendingTimers := []\<rparr>)"
  by (simp add: raceState_def fireTimer_def idleTimerCallback_def getActiveCount_def clearTimeout_def
      touchWorkerIdleTimer_def clearWorkerIdleTimer_def Let_def)

text \<open>
  C7. A call of \<open>renderPdfCoverThumbnail\<close> that gets its permit (PDF extension, size
  within the threshold, a free slot in the limiter) completes by returning, and on every
  path through the renderer the permit operations of the call are one acquire followed by
  one release, so that the active count of the limiter is afterwards what it was before.
\<close>

theorem release_exactly_once:
  assumes "toLowerCase (extension pdfFile) = ''pdf''"
    and "(case stat_size pdfFile of None \<Rightarrow> 0 | Some n \<Rightarrow> n) \<le> MAX_PDF_THUMBNAIL_BYTES"
    and "getActiveCount s < MAX_PARALLEL_PDF_RENDERS"
  shows "(\<exists>v. fst (renderPdfCoverThumbnail env pdfFile options s) = Completed (Inr v))
       \<and> permitEvents (trace (snd (renderPdfCoverThumbnail env pdfFile options s)))
           = permitEvents (trace s) @ [EvAcquire, EvRelease]
       \<and> getActiveCount (snd (renderPdfCoverThumbnail env pdfFile options s)) = getActiveCount s"
proof -
  let ?s0 = "clearWorkerIdleTimer s"
  from assms(3) obtain s1 where acq: "limiter_acquire ?s0 = Some s1"
    by (simp add: limiter_acquire_def getActiveCount_def)
  from limiter_acquire_Some [OF acq]
  have s1: "activeCount s1 = activeCount s + 1" "trace s1 = trace s @ [EvAcquire]"
    by simp_all
  let ?t = "renderTry env pdfFile options s1"
  let ?c = "renderCatch pdfFile (fst ?t, snd (snd ?t))"
  note eq = renderPdfCoverThumbnail_admitted [OF assms(1,2) acq, of env options]
  have "sameLimiter s1 (snd ?c)" by simp
  then have c: "activeCount (snd ?c) = activeCount s + 1"
    "permitEvents (trace (snd ?c)) = permitEvents (trace s) @ [EvAcquire]"
    using s1 by (simp_all add: sameLimiter_def permitEvents_def)
  from renderCatch_returns obtain v where v: "fst ?c = Inr v" by blast
  show ?thesis
    unfolding eq using c v
    by (simp add: renderFinally_limiter getActiveCount_def)
qed

theorem release_exactly_once_witness:
  "toLowerCase (extension samplePdf) = ''pdf''
   \<and> (case stat_size samplePdf of None \<Rightarrow> 0 | Some n \<Rightarrow> n) \<le> MAX_PDF_THUMBNAIL_BYTES
   \<and> getActiveCount initialState < MAX_PARALLEL_PDF_RENDERS
   \<and> permitEvents (trace (snd (renderPdfCoverThumbnail fallbackEnv samplePdf sampleOptions initialState)))
       = [EvAcquire, EvRelease]
   \<and> getActiveCount (snd (renderPdfCoverThumbnail fallbackEnv samplePdf sampleOptions initialState)) = 0
   \<and> permitEvents (trace (snd (renderPdfCoverThumbnail brokenEnv samplePdf sampleOptions initialState)))
       = [EvAcquire, EvRelease]
   \<and> getActiveCount (snd (renderPdfCoverThumbnail brokenEnv samplePdf sampleOptions initialState)) = 0"
proof -
  have h: "getActiveCount initialState < MAX_PARALLEL_PDF_RENDERS"
    by (simp add: getActiveCount_def initialState_def MAX_PARALLEL_PDF_RENDERS_def)
  have e: "permitEvents (trace initialState) = []" "getActiveCount initialState = 0"
    by (simp_all add: permitEvents_def initialState_def getActiveCount_def)
  show ?thesis
    using release_exactly_once [OF samplePdf_admissible h, of fallbackEnv sampleOptions]
      release_exactly_once [OF samplePdf_admissible h, of brokenEnv sampleOptions]
      samplePdf_admissible h
    by (simp add: e)
qed



text \<open>
  C9. For a file whose size exceeds 25 MiB, \<open>renderPdfCoverThumbnail\<close> returns null and
  leaves the state as it was, but for the one entry of the once-logger in the trace: no
  permit is acquired, the worker and its timer are not touched, nothing of the renderer
  is called. (A file without the PDF extension returns null before the size is looked
  at, and is not logged.)
\<close>

theorem oversized_pdf_skipped:
  assumes "stat_size pdfFile = Some n" and "MAX_PDF_THUMBNAIL_BYTES < n"
  shows "renderPdfCoverThumbnail env pdfFile options s =
           (Completed (Inr None),
            if toLowerCase (extension pdfFile) = ''pdf''
            then s\<lparr>trace := trace s @ [EvLogOnce (''pdf-cover:skip-size:'' @ path pdfFile)]\<rparr>
            else s)"
  using assms by (simp add: renderPdfCoverThumbnail_def emit_def)

theorem oversized_pdf_skipped_witness:
  "stat_size hugePdf = Some 27262976 \<and> MAX_PDF_THUMBNAIL_BYTES < 27262976
   \<and> renderPdfCoverThumbnail fallbackEnv hugePdf sampleOptions initialState
       = (Completed (Inr None),
          initialState\<lparr>trace := [EvLogOnce ''pdf-cover:skip-size:books/b.pdf'']\<rparr>)"
proof -
  have h: "stat_size hugePdf = Some 27262976" "MAX_PDF_THUMBNAIL_BYTES < 27262976"
    by (simp_all add: hugePdf_def samplePdf_def MAX_PDF_THUMBNAIL_BYTES_def)
  show ?thesis
    using oversized_pdf_skipped [OF h, of fallbackEnv sampleOptions initialState] h
    by (simp add: hugePdf_def samplePdf_def toLowerCase_PDF initialState_def)
qed

section \<open>Properties of the weighted admission limiter\<close>

text \<open>Every call keeps the accounting of the limiter.\<close>

lemma admitWaiters_totalBudget [simp]: "totalBudget (admitWaiters l ps) = totalBudget l"
  by (induction ps arbitrary: l) simp_all

lemma admitWaiters_accounted:
  assumes "0 \<le> totalBudget l"
    and "activeWeight l = sum_list (map snd (admitted l))"
    and "\<forall>p \<in> set (admitted l). 0 \<le> snd p"
    and "\<forall>p \<in> set ps. 0 \<le> snd p"
    and "activeWeight l \<le> totalBudget l"
  shows "limiterAccounted (admitWaiters l ps)"
  using assms
proof (induction ps arbitrary: l)
  case Nil
  then show ?case by (simp add: limiterAccounted_def)
next
  case (Cons p ps)
  show ?case
  proof (cases "activeWeight l + snd p \<le> totalBudget l")
    case True
    let ?l = "l\<lparr>activeWeight := activeWeight l + snd p, admitted := admitted l @ [p]\<rparr>"
    have "limiterAccounted (admitWaiters ?l ps)"
      using Cons.prems True by (intro Cons.IH) simp_all
    with True show ?thesis by simp
  next
    case False
    with Cons.prems show ?thesis by (simp add: limiterAccounted_def)
  qed
qed

lemma acquire_accounted:
  assumes "limiterAccounted l" and "acquire weight l = Inr (permit, l')"
  shows "limiterAccounted l'"
proof -
  from assms(2) have nn: "0 \<le> weight"
    and l': "l' = admitWaiters (l\<lparr>nextPermit := nextPermit l + 1\<rparr>)
                    (waiters l @ [(nextPermit l, min weight (totalBudget l))])"
    by (auto simp: acquire_def Let_def split: if_splits)
  show ?thesis
    unfolding l' using assms(1) nn
    by (intro admitWaiters_accounted) (auto simp: limiterAccounted_def)
qed

lemma sum_list_remove1_snd:
  "p \<in> set xs \<Longrightarrow> sum_list (map snd (remove1 p xs)) = sum_list (map snd xs) - (snd p :: int)"
  by (induction xs) auto

lemma release_accounted:
  assumes "limiterAccounted l" and "release permit l = Inr l'"
  shows "limiterAccounted l'"
proof -
  from assms(2) obtain weight where w: "map_of (admitted l) permit = Some weight"
    and l': "l' = admitWaiters (l\<lparr>activeWeight := activeWeight l - weight,
                    admitted := remove1 (permit, weight) (admitted l)\<rparr>) (waiters l)"
    by (auto simp: release_def split: option.splits)
  from w have m: "(permit, weight) \<in> set (admitted l)" by (rule map_of_SomeD)
  with assms(1) have nn: "0 \<le> weight" by (auto simp: limiterAccounted_def)
  have s: "sum_list (map snd (remove1 (permit, weight) (admitted l)))
             = sum_list (map snd (admitted l)) - weight"
    using sum_list_remove1_snd [OF m] by simp
  have sub: "set (remove1 (permit, weight) (admitted l)) \<subseteq> set (admitted l)"
    by (rule set_remove1_subset)
  show ?thesis
    unfolding l'
  proof (rule admitWaiters_accounted)
    show "0 \<le> totalBudget (l\<lparr>activeWeight := activeWeight l - weight,
                    admitted := remove1 (permit, weight) (admitted l)\<rparr>)"
      using assms(1) by (simp add: limiterAccounted_def)
    show "activeWeight (l\<lparr>activeWeight := activeWeight l - weight,
                    admitted := remove1 (permit, weight) (admitted l)\<rparr>)
          = sum_list (map snd (admitted (l\<lparr>activeWeight := activeWeight l - weight,
                    admitted := remove1 (permit, weight) (admitted l)\<rparr>)))"
      using assms(1) s by (simp add: limiterAccounted_def)
    show "\<forall>p\<in>set (admitted (l\<lparr>activeWeight := activeWeight l - weight,
                    admitted := remove1 (permit, weight) (admitted l)\<rparr>)). 0 \<le> snd p"
      using assms(1) sub by (auto simp: limiterAccounted_def)
    show "\<forall>p\<in>set (waiters l). 0 \<le> snd p"
      using assms(1) by (simp add: limiterAccounted_def)
    show "activeWeight (l\<lparr>activeWeight := activeWeight l - weight,
                    admitted := remove1 (permit, weight) (admitted l)\<rparr>)
          \<le> totalBudget (l\<lparr>activeWeight := activeWeight l - weight,
                    admitted := remove1 (permit, weight) (admitted l)\<rparr>)"
      using assms(1) nn by (simp add: limiterAccounted_def)
  qed
qed

lemma limiterCall_accounted: "limiterAccounted l \<Longrightarrow> limiterAccounted (limiterCall c l)"
  by (auto simp: limiterCall_def split: limiter_call.splits sum.splits
      dest: acquire_accounted release_accounted)

lemma limiterCalls_accounted: "limiterAccounted l \<Longrightarrow> limiterAccounted (limiterCalls l cs)"
  by (induction cs arbitrary: l) (simp_all add: limiterCall_accounted)

lemma create_accounted: "0 \<le> budget \<Longrightarrow> limiterAccounted (createRenderBudgetLimiter budget)"
  by (simp add: limiterAccounted_def createRenderBudgetLimiter_def)

lemma limiterCall_totalBudget [simp]: "totalBudget (limiterCall c l) = totalBudget l"
  by (auto simp: limiterCall_def acquire_def release_def Let_def
      split: limiter_call.splits sum.splits option.splits if_splits)

lemma limiterCalls_totalBudget [simp]: "totalBudget (limiterCalls l cs) = totalBudget l"
  by (induction cs arbitrary: l) simp_all

text \<open>
  The two tests of the repository, replayed: a second request of weight 3 on a budget of
  5 waits until the first one is released; a request of weight 10 is clamped to the
  budget of 5 and admitted once the limiter is empty.
\<close>

lemma limiter_queues_when_budget_is_exceeded:
  "getActiveWeight (limiterCalls (createRenderBudgetLimiter 5) [Acquire 3]) = 3
   \<and> limiterCalls (createRenderBudgetLimiter 5) [Acquire 3, Acquire 3]
       = \<lparr>totalBudget = 5, activeWeight = 3, admitted = [(0, 3)], waiters = [(1, 3)], nextPermit = 2\<rparr>
   \<and> limiterCalls (createRenderBudgetLimiter 5) [Acquire 3, Acquire 3, Release 0]
       = \<lparr>totalBudget = 5, activeWeight = 3, admitted = [(1, 3)], waiters = [], nextPermit = 2\<rparr>
   \<and> getActiveWeight (limiterCalls (createRenderBudgetLimiter 5)
         [Acquire 3, Acquire 3, Release 0, Release 1]) = 0"
  by (simp add: createRenderBudgetLimiter_def limiterCall_def acquire_def release_def
      getActiveWeight_def Let_def)

lemma limiter_clamps_overweight:
  "limiterCalls (createRenderBudgetLimiter 5) [Acquire 3, Acquire 10]
       = \<lparr>totalBudget = 5, activeWeight = 3, admitted = [(0, 3)], waiters = [(1, 5)], nextPermit = 2\<rparr>
   \<and> limiterCalls (createRenderBudgetLimiter 5) [Acquire 3, Acquire 10, Release 0]
       = \<lparr>totalBudget = 5, activeWeight = 5, admitted = [(1, 5)], waiters = [], nextPermit = 2\<rparr>
   \<and> getActiveWeight (limiterCalls (createRenderBudgetLimiter 5)
         [Acquire 3, Acquire 10, Release 0, Release 1]) = 0"
  by (simp add: createRenderBudgetLimiter_def limiterCall_def acquire_def release_def
      getActiveWeight_def Let_def)

text \<open>
  C1. For a limiter created with a budget \<open>B \<ge> 0\<close> and every sequence of
  \<open>acquire(weight)\<close> and \<open>release()\<close> calls, the active weight is never negative and
  never above \<open>B\<close>. A request heavier than \<open>B\<close> counts with the weight \<open>B\<close> it is
  clamped to, so that it, too, stays within the bound.
\<close>

theorem active_weight_within_budget:
  assumes "0 \<le> budget"
  shows "0 \<le> getActiveWeight (limiterCalls (createRenderBudgetLimiter budget) calls)
       \<and> getActiveWeight (limiterCalls (createRenderBudgetLimiter budget) calls) \<le> budget"
proof -
  let ?l = "limiterCalls (createRenderBudgetLimiter budget) calls"
  have a: "limiterAccounted ?l"
    using assms by (intro limiterCalls_accounted create_accounted)
  have b: "totalBudget ?l = budget" by (simp add: createRenderBudgetLimiter_def)
  from a have "0 \<le> sum_list (map snd (admitted ?l))"
    by (intro sum_list_nonneg) (auto simp: limiterAccounted_def)
  with a b show ?thesis by (simp add: limiterAccounted_def getActiveWeight_def)
qed

theorem active_weight_within_budget_witness:
  "(0::int) \<le> 5
   \<and> 0 \<le> getActiveWeight (limiterCalls (createRenderBudgetLimiter 5) [Acquire 3, Acquire 10, Release 0])
   \<and> getActiveWeight (limiterCalls (createRenderBudgetLimiter 5) [Acquire 3, Acquire 10, Release 0]) \<le> 5"
  using active_weight_within_budget [of 5 "[Acquire 3, Acquire 10, Release 0]"]
  by simp

end
